theory Spec2Isabelle
  imports Complex_Main
begin

section \<open>Data model of \<^verbatim>\<open>fan_driver.py\<close>\<close>

text \<open>
  The daemon \<^verbatim>\<open>FanDriverDaemon\<close> is embedded as pure functions over a record of its
  attributes. Everything outside the source file is an explicit input: the sensor file, the
  configuration file, the GPIO library and the signals delivered by the operating system.
  Every call the daemon makes to the GPIO library, to the logger and to the sensor file is
  appended to a trace, so that "exactly once" and "no further reads" are statements about
  that list.

  Python's \<^verbatim>\<open>float\<close> is idealised as \<^typ>\<open>real\<close>: rounding, overflow to infinity and NaN are
  not modelled.
\<close>

subsection \<open>Values read from JSON\<close>

datatype json =
    JNull
  | JBool bool
  | JInt int
  | JFloat real
  | JStr string
  | JArr "json list"
  | JObj "(string \<times> json) list"

type_synonym conf = "string \<rightharpoonup> json"

text \<open>Python truth value of a loaded JSON value (\<^verbatim>\<open>if x\<close>, \<^verbatim>\<open>not x\<close>).\<close>

fun truthy :: "json \<Rightarrow> bool" where
  "truthy JNull = False"
| "truthy (JBool b) = b"
| "truthy (JInt i) = (i \<noteq> 0)"
| "truthy (JFloat r) = (r \<noteq> 0)"
| "truthy (JStr s) = (s \<noteq> [])"
| "truthy (JArr xs) = (xs \<noteq> [])"
| "truthy (JObj kvs) = (kvs \<noteq> [])"

text \<open>
  The number a value stands for in a comparison with a float: \<^verbatim>\<open>int\<close>, \<^verbatim>\<open>float\<close> and
  \<^verbatim>\<open>bool\<close> (a subclass of \<^verbatim>\<open>int\<close>) compare numerically, every other type makes
  \<^verbatim>\<open>>\<close> and \<^verbatim>\<open><\<close> raise \<^verbatim>\<open>TypeError\<close>.
\<close>

fun num_of :: "json \<Rightarrow> real option" where
  "num_of (JInt i) = Some (of_int i)"
| "num_of (JFloat r) = Some r"
| "num_of (JBool b) = Some (if b then 1 else 0)"
| "num_of _ = None"

subsection \<open>Errors, signals, trace events\<close>

datatype error =
    KeyError string        \<comment> \<open>\<^verbatim>\<open>self.config[k]\<close> with \<^verbatim>\<open>k\<close> missing\<close>
  | ConfigLoadError        \<comment> \<open>\<^verbatim>\<open>open\<close>, \<^verbatim>\<open>json.load\<close> or \<^verbatim>\<open>config.update\<close> raised\<close>
  | LoggingSetupError      \<comment> \<open>the logging set-up of \<^verbatim>\<open>__init__\<close> raised\<close>
  | SensorOpenError        \<comment> \<open>\<^verbatim>\<open>open(temp_file)\<close> raised\<close>
  | SensorParseError       \<comment> \<open>\<^verbatim>\<open>float(file.read())\<close> raised\<close>
  | CompareTypeError       \<comment> \<open>float compared with a value that is not a number\<close>
  | WaitTypeError          \<comment> \<open>\<^verbatim>\<open>Event.wait\<close> with a timeout that is not a number\<close>
  | WaitOverflowError      \<comment> \<open>\<^verbatim>\<open>Event.wait\<close> with a timeout larger than the lock accepts\<close>
  | PinSetupError          \<comment> \<open>\<^verbatim>\<open>GPIO.setup\<close> raised\<close>
  | PinWriteError          \<comment> \<open>\<^verbatim>\<open>GPIO.output\<close> raised\<close>

datatype signal = SIGTERM | SIGINT | SIGHUP

datatype event =
    ReadTemp                   \<comment> \<open>\<^verbatim>\<open>_get_temp\<close> entered: the sensor file is opened\<close>
  | GpioSetmode                \<comment> \<open>\<^verbatim>\<open>GPIO.setmode(GPIO.BCM)\<close>\<close>
  | GpioSetup json bool        \<comment> \<open>\<^verbatim>\<open>GPIO.setup(pin, GPIO.OUT, initial=level)\<close>, \<^verbatim>\<open>HIGH\<close> is \<^const>\<open>True\<close>\<close>
  | GpioOutput json bool       \<comment> \<open>\<^verbatim>\<open>GPIO.output(pin, level)\<close>\<close>
  | GpioCleanup                \<comment> \<open>\<^verbatim>\<open>GPIO.cleanup()\<close>\<close>
  | LogLoaded                  \<comment> \<open>info: Loaded config\<close>
  | LogReloaded                \<comment> \<open>info: Reloaded config\<close>
  | LogConfig                  \<comment> \<open>debug: Config\<close>
  | LogInited                  \<comment> \<open>info: FanDriverDaemon inited\<close>
  | LogTemp real               \<comment> \<open>debug: Temp\<close>
  | LogChanged json bool       \<comment> \<open>info: Changed pin to state\<close>
  | LogStarting                \<comment> \<open>info: starting fan driver\<close>
  | LogError error             \<comment> \<open>error: unexpected error\<close>
  | LogShutdown                \<comment> \<open>info: shutting down\<close>

subsection \<open>The daemon object\<close>

record daemon =
  config_file :: string
  config :: conf
  pin_state :: bool
  running :: bool
  end_event :: bool
  reload_event :: bool
  trace :: "event list"

definition emit :: "event \<Rightarrow> daemon \<Rightarrow> daemon" where
  "emit ev d = d\<lparr>trace := trace d @ [ev]\<rparr>"

subsection \<open>The outside world\<close>

text \<open>
  What \<^verbatim>\<open>json.load\<close> followed by \<^verbatim>\<open>config.update\<close> finds in a configuration file: either
  one of them raises, or the document is a JSON object, loaded as a dictionary. (A top-level
  array of pairs, which \<^verbatim>\<open>dict.update\<close> would also accept, is not part of the model.)
\<close>

datatype conf_source = Unloadable | Document conf

text \<open>
  What \<^verbatim>\<open>float(file.read())\<close> finds in the sensor file: the file cannot be opened, its
  content is not a number, or its content is the number \<open>v\<close> (millidegrees).
\<close>

datatype sensor_read = SensorMissing | SensorGarbage | SensorValue real

text \<open>
  The inputs of one pass through the body of the \<^verbatim>\<open>while\<close> loop of \<^verbatim>\<open>run\<close>. Signals are
  listed by the place where their handlers run, one handler after the other: while
  \<^verbatim>\<open>work\<close> runs; inside \<^verbatim>\<open>end_event.wait\<close> while the call holds the lock of the event (from
  taking it until giving it up to park, and from taking it again until returning); inside
  the call while the lock is given up, the thread being parked for the length of the
  timeout; while the reload runs (before the flag is cleared); and after that, before the
  loop condition is tested again. A signal handled while another handler is still running,
  or while \<^verbatim>\<open>reload_event.clear\<close> runs, is not among these inputs.
\<close>

record iter_env =
  sensor :: sensor_read
  output_ok :: bool                  \<comment> \<open>\<^verbatim>\<open>GPIO.output\<close> returns rather than raises\<close>
  sig_work :: "signal list"
  sig_lock :: "signal list"          \<comment> \<open>handled while the wait holds the lock of \<^verbatim>\<open>end_event\<close>\<close>
  sig_wait :: "signal list"          \<comment> \<open>handled while the wait is parked, the lock given up\<close>
  files :: "string \<Rightarrow> conf_source"    \<comment> \<open>the file system when the reload reads it\<close>
  setup_ok :: bool                   \<comment> \<open>\<^verbatim>\<open>GPIO.setup\<close> returns rather than raises\<close>
  sig_reload :: "signal list"
  sig_end :: "signal list"

section \<open>Operations\<close>

subsection \<open>\<^verbatim>\<open>_load_config\<close>\<close>

definition log_format :: "string list" where
  "log_format =
    [''[PID: %(process)d]'',
     ''%(asctime)s'',
     ''[%(levelname)s]'',
     ''%(module)s:%(funcName)s:%(lineno)d'',
     ''%(message)s'']"

text \<open>\<^verbatim>\<open>sep.join(xs)\<close>\<close>

fun join :: "string \<Rightarrow> string list \<Rightarrow> string" where
  "join sep [] = []"
| "join sep [x] = x"
| "join sep (x # y # ys) = x @ sep @ join sep (y # ys)"

definition default_config :: conf where
  "default_config =
    [''log_level'' \<mapsto> JStr ''INFO'',
     ''log_file'' \<mapsto> JNull,
     ''log_format'' \<mapsto> JNull,
     ''temp_max'' \<mapsto> JInt 55,
     ''temp_min'' \<mapsto> JInt 45,
     ''sleep'' \<mapsto> JInt 1,
     ''control_pin'' \<mapsto> JInt 21]"

definition load_config :: "conf_source \<Rightarrow> error + conf" where
  "load_config src =
    (case src of
       Unloadable \<Rightarrow> Inl ConfigLoadError
     | Document data \<Rightarrow>
         let cfg = default_config ++ data in
         (case cfg ''log_format'' of
            None \<Rightarrow> Inl (KeyError ''log_format'')
          | Some f \<Rightarrow>
              Inr (if \<not> truthy f then cfg(''log_format'' \<mapsto> JStr (join '' '' log_format))
                   else cfg)))"

subsection \<open>Pins\<close>

text \<open>
  \<^verbatim>\<open>_setup_pins\<close>: the initial level is \<^verbatim>\<open>HIGH\<close> exactly when \<^verbatim>\<open>pin_state\<close> holds. The
  result is the error raised, if any, and the daemon as the call leaves it.
\<close>

definition setup_pins :: "bool \<Rightarrow> daemon \<Rightarrow> error option \<times> daemon" where
  "setup_pins ok d =
    (let d1 = emit GpioSetmode d;
         init_state = (if pin_state d1 then True else False)
     in case config d1 ''control_pin'' of
          None \<Rightarrow> (Some (KeyError ''control_pin''), d1)
        | Some pin \<Rightarrow>
            let d2 = emit (GpioSetup pin init_state) d1
            in (if ok then None else Some PinSetupError, d2))"

definition cleanup_pins :: "daemon \<Rightarrow> daemon" where
  "cleanup_pins d = emit GpioCleanup d"

subsection \<open>\<^verbatim>\<open>_reload_config\<close>\<close>

definition reload_config :: "conf_source \<Rightarrow> bool \<Rightarrow> daemon \<Rightarrow> error option \<times> daemon" where
  "reload_config src ok d =
    (case load_config src of
       Inl e \<Rightarrow> (Some e, d)
     | Inr cfg \<Rightarrow>
         let d1 = d\<lparr>config := cfg\<rparr>;
             d2 = emit LogReloaded d1;
             d3 = emit LogConfig d2;
             d4 = cleanup_pins d3
         in setup_pins ok d4)"

subsection \<open>Signal handlers\<close>

definition signal_stop_handler :: "daemon \<Rightarrow> daemon" where
  "signal_stop_handler d = d\<lparr>running := False, end_event := True\<rparr>"

definition signal_reload_handler :: "daemon \<Rightarrow> daemon" where
  "signal_reload_handler d = d\<lparr>reload_event := True\<rparr>"

text \<open>The table installed by \<^verbatim>\<open>__setup_signal_handlers\<close>.\<close>

fun handle :: "signal \<Rightarrow> daemon \<Rightarrow> daemon" where
  "handle SIGTERM d = signal_stop_handler d"
| "handle SIGINT d = signal_stop_handler d"
| "handle SIGHUP d = signal_reload_handler d"

definition deliver :: "signal list \<Rightarrow> daemon \<Rightarrow> daemon" where
  "deliver sigs d = fold handle sigs d"

subsection \<open>\<^verbatim>\<open>_get_temp\<close> and \<^verbatim>\<open>work\<close>\<close>

definition get_temp :: "sensor_read \<Rightarrow> daemon \<Rightarrow> (error + real) \<times> daemon" where
  "get_temp s d =
    (let d1 = emit ReadTemp d
     in case s of
          SensorMissing \<Rightarrow> (Inl SensorOpenError, d1)
        | SensorGarbage \<Rightarrow> (Inl SensorParseError, d1)
        | SensorValue v \<Rightarrow> (Inr (v / 1000), d1))"

text \<open>\<^verbatim>\<open>temp > self.config[k]\<close> and \<^verbatim>\<open>temp < self.config[k]\<close>\<close>

definition temp_gt :: "real \<Rightarrow> conf \<Rightarrow> string \<Rightarrow> error + bool" where
  "temp_gt temp cfg k =
    (case cfg k of
       None \<Rightarrow> Inl (KeyError k)
     | Some j \<Rightarrow> (case num_of j of None \<Rightarrow> Inl CompareTypeError | Some x \<Rightarrow> Inr (temp > x)))"

definition temp_lt :: "real \<Rightarrow> conf \<Rightarrow> string \<Rightarrow> error + bool" where
  "temp_lt temp cfg k =
    (case cfg k of
       None \<Rightarrow> Inl (KeyError k)
     | Some j \<Rightarrow> (case num_of j of None \<Rightarrow> Inl CompareTypeError | Some x \<Rightarrow> Inr (temp < x)))"

text \<open>
  The condition of \<^verbatim>\<open>work\<close>, evaluated left to right with the short cuts of \<^verbatim>\<open>and\<close> and
  \<^verbatim>\<open>or\<close>: the lower threshold is looked up only when the first disjunct is false.
\<close>

definition must_toggle :: "real \<Rightarrow> daemon \<Rightarrow> error + bool" where
  "must_toggle temp d =
    (case temp_gt temp (config d) ''temp_max'' of
       Inl e \<Rightarrow> Inl e
     | Inr hot \<Rightarrow>
         if hot \<and> \<not> pin_state d then Inr True
         else (case temp_lt temp (config d) ''temp_min'' of
                 Inl e \<Rightarrow> Inl e
               | Inr cold \<Rightarrow> Inr (cold \<and> pin_state d)))"

definition work :: "sensor_read \<Rightarrow> bool \<Rightarrow> daemon \<Rightarrow> error option \<times> daemon" where
  "work s ok d =
    (case config d ''control_pin'' of
       None \<Rightarrow> (Some (KeyError ''control_pin''), d)
     | Some pin \<Rightarrow>
         (case get_temp s d of
            (Inl e, d1) \<Rightarrow> (Some e, d1)
          | (Inr temp, d1) \<Rightarrow>
              let d2 = emit (LogTemp temp) d1
              in (case must_toggle temp d2 of
                    Inl e \<Rightarrow> (Some e, d2)
                  | Inr False \<Rightarrow> (None, d2)
                  | Inr True \<Rightarrow>
                      let d3 = d2\<lparr>pin_state := \<not> pin_state d2\<rparr>;
                          d4 = emit (GpioOutput pin (pin_state d3)) d3
                      in if ok then (None, emit (LogChanged pin (pin_state d4)) d4)
                         else (Some PinWriteError, d4))))"

subsection \<open>The interruptible wait\<close>

text \<open>
  A \<^verbatim>\<open>threading.Event\<close> guards its flag with a lock that is not reentrant: \<^verbatim>\<open>set\<close>,
  \<^verbatim>\<open>clear\<close> and \<^verbatim>\<open>wait\<close> take it, and \<^verbatim>\<open>wait\<close> gives it up only for the time its thread
  is parked. A handler runs in the thread it interrupts. When that thread holds the lock of
  \<^verbatim>\<open>end_event\<close>, the stop handler clears \<^verbatim>\<open>running\<close> and then waits in \<^verbatim>\<open>end_event.set()\<close>
  for the lock its own thread holds: it never returns (\<^const>\<open>None\<close>). The reload handler
  takes the lock of \<^verbatim>\<open>reload_event\<close> only.
\<close>

fun handle_holding :: "signal \<Rightarrow> daemon \<Rightarrow> daemon option" where
  "handle_holding SIGTERM d = None"
| "handle_holding SIGINT d = None"
| "handle_holding SIGHUP d = Some (signal_reload_handler d)"

fun deliver_holding :: "signal list \<Rightarrow> daemon \<Rightarrow> daemon option" where
  "deliver_holding [] d = Some d"
| "deliver_holding (s # ss) d =
    (case handle_holding s d of None \<Rightarrow> None | Some d1 \<Rightarrow> deliver_holding ss d1)"

text \<open>
  The thread parked in \<^verbatim>\<open>end_event.wait\<close>, the lock of the event given up, runs the handler
  of each arriving signal and returns \<^verbatim>\<open>True\<close> as soon as \<^verbatim>\<open>end_event\<close> is set; the signals
  not yet delivered are handed back. With no signal left it returns \<^verbatim>\<open>False\<close>: the timeout
  has expired.
\<close>

fun blocked :: "signal list \<Rightarrow> daemon \<Rightarrow> bool \<times> daemon \<times> signal list" where
  "blocked [] d = (False, d, [])"
| "blocked (s # ss) d =
    (let d1 = handle s d in if end_event d1 then (True, d1, ss) else blocked ss d1)"

datatype wait_outcome =
    Returned bool daemon "signal list"   \<comment> \<open>the value of \<^verbatim>\<open>wait\<close>, the state, signals still to come\<close>
  | Raised error daemon
  | Never                                \<comment> \<open>no timeout and no stop request: the wait does not end\<close>
  | Deadlock                             \<comment> \<open>a stop handler waits for the lock its thread holds\<close>

text \<open>
  The largest timeout, in microseconds, that a lock of CPython 3.11 accepts where
  \<^verbatim>\<open>long long\<close> has 64 bits (\<^verbatim>\<open>LLONG_MAX / 1000\<close>); a larger one makes \<^verbatim>\<open>acquire\<close> raise
  \<^verbatim>\<open>OverflowError\<close>. \<^verbatim>\<open>threading.TIMEOUT_MAX\<close>, 9223372036 seconds, is this bound in whole
  seconds.
\<close>

definition PY_TIMEOUT_MAX :: int where
  "PY_TIMEOUT_MAX = 9223372036854775"

text \<open>
  \<^verbatim>\<open>self.end_event.wait(timeout=self.config['sleep'])\<close>, with the signals \<open>held\<close> handled
  while the call holds the lock of the event and the signals \<open>sigs\<close> arriving while it is
  parked. An event that is already set returns at once, whatever the timeout; \<^verbatim>\<open>None\<close>
  waits without limit; a number that is not positive does not block; a positive number
  above the bound of the lock raises; any other value fails in the test \<^verbatim>\<open>timeout > 0\<close>.
\<close>

definition event_wait :: "signal list \<Rightarrow> signal list \<Rightarrow> daemon \<Rightarrow> wait_outcome" where
  "event_wait held sigs d =
    (case config d ''sleep'' of
       None \<Rightarrow> Raised (KeyError ''sleep'') d
     | Some t \<Rightarrow>
         (case deliver_holding held d of
            None \<Rightarrow> Deadlock
          | Some d0 \<Rightarrow>
              if end_event d0 then Returned True d0 sigs
              else if t = JNull then
                (case blocked sigs d0 of
                   (True, d1, rest) \<Rightarrow> Returned True d1 rest
                 | (False, d1, rest) \<Rightarrow> Never)
              else (case num_of t of
                      None \<Rightarrow> Raised WaitTypeError d0
                    | Some secs \<Rightarrow>
                        if secs > 0 then
                          if secs * 1000000 > of_int PY_TIMEOUT_MAX
                          then Raised WaitOverflowError d0
                          else (case blocked sigs d0 of
                                  (woken, d1, rest) \<Rightarrow> Returned woken d1 rest)
                        else Returned False d0 sigs)))"

subsection \<open>\<^verbatim>\<open>run\<close>\<close>

text \<open>
  The end of the loop body: \<^verbatim>\<open>if self.reload_event.is_set(): ... clear()\<close>. The flag
  is cleared only when \<^verbatim>\<open>_reload_config\<close> returns.
\<close>

definition catch_reload :: "iter_env \<Rightarrow> daemon \<Rightarrow> error option \<times> daemon" where
  "catch_reload e d =
    (if reload_event d then
       (case reload_config (files e (config_file d)) (setup_ok e) d of
          (Some err, d1) \<Rightarrow> (Some err, d1)
        | (None, d1) \<Rightarrow>
            let d2 = deliver (sig_reload e) d1
            in (None, d2\<lparr>reload_event := False\<rparr>))
     else (None, d))"

text \<open>
  One pass through the loop body. The result is \<^const>\<open>None\<close> when the pass never ends,
  otherwise the exception that leaves the loop, if any, and the daemon.
\<close>

definition iteration :: "iter_env \<Rightarrow> daemon \<Rightarrow> (error option \<times> daemon) option" where
  "iteration e d =
    (case work (sensor e) (output_ok e) (deliver (sig_work e) d) of
       (Some err, d1) \<Rightarrow> Some (Some err, d1)
     | (None, d1) \<Rightarrow>
         (case event_wait (sig_lock e) (sig_wait e) d1 of
            Never \<Rightarrow> None
          | Deadlock \<Rightarrow> None
          | Raised err d2 \<Rightarrow> Some (Some err, d2)
          | Returned woken d2 rest \<Rightarrow>
              (case catch_reload e (deliver rest d2) of
                 (Some err, d3) \<Rightarrow> Some (Some err, d3)
               | (None, d3) \<Rightarrow> Some (None, deliver (sig_end e) d3))))"

text \<open>
  The \<^verbatim>\<open>while self.running\<close> loop over the inputs of its passes. The inputs are finite, the
  loop need not be: \<^const>\<open>None\<close> says that it is still running when they are used up, or
  that one of its passes never ends.
\<close>

fun run_loop :: "iter_env list \<Rightarrow> daemon \<Rightarrow> (error option \<times> daemon) option" where
  "run_loop [] d = (if running d then None else Some (None, d))"
| "run_loop (e # es) d =
    (if running d then
       (case iteration e d of
          None \<Rightarrow> None
        | Some (Some err, d1) \<Rightarrow> Some (Some err, d1)
        | Some (None, d1) \<Rightarrow> run_loop es d1)
     else Some (None, d))"

text \<open>
  \<^verbatim>\<open>run\<close>: the \<^verbatim>\<open>except BaseException\<close> clause logs whatever left the loop, the
  \<^verbatim>\<open>finally\<close> clause releases the pins and logs the shutdown, and \<^verbatim>\<open>run\<close> returns.
\<close>

definition run :: "iter_env list \<Rightarrow> daemon \<Rightarrow> daemon option" where
  "run envs d =
    (let d1 = emit LogStarting d;
         d2 = d1\<lparr>running := True\<rparr>
     in case run_loop envs d2 of
          None \<Rightarrow> None
        | Some (r, d3) \<Rightarrow>
            let d4 = (case r of None \<Rightarrow> d3 | Some err \<Rightarrow> emit (LogError err) d3);
                d5 = cleanup_pins d4
            in Some (emit LogShutdown d5))"

subsection \<open>\<^verbatim>\<open>__init__\<close> and the script\<close>

record init_env =
  init_files :: "string \<Rightarrow> conf_source"
  logging_ok :: bool                 \<comment> \<open>the logging set-up returns rather than raises\<close>
  init_setup_ok :: bool
  sig_init :: "signal list"          \<comment> \<open>signals arriving once the handlers are installed\<close>

definition init :: "string \<Rightarrow> init_env \<Rightarrow> error + daemon" where
  "init path ie =
    (case load_config (init_files ie path) of
       Inl e \<Rightarrow> Inl e
     | Inr cfg \<Rightarrow>
         if \<not> logging_ok ie then Inl LoggingSetupError
         else
           let d0 = \<lparr>config_file = path, config = cfg, pin_state = False, running = False,
                     end_event = False, reload_event = False, trace = [LogLoaded, LogConfig]\<rparr>;
               d1 = deliver (sig_init ie) d0;
               d2 = d1\<lparr>pin_state := False\<rparr>
           in (case setup_pins (init_setup_ok ie) d2 of
                 (Some e, d3) \<Rightarrow> Inl e
               | (None, d3) \<Rightarrow> Inr (emit LogInited d3)))"

text \<open>\<^verbatim>\<open>sys.argv[1] if len(sys.argv) > 1 else '/etc/fan_driver.config.json'\<close>\<close>

definition conf_path :: "string list \<Rightarrow> string" where
  "conf_path argv = (if length argv > 1 then argv ! 1 else ''/etc/fan_driver.config.json'')"

text \<open>
  The script: the exit status of the interpreter is 1 when an exception reaches the top
  level and 0 when the script runs to its end. \<^const>\<open>None\<close>: the process does not end
  within the given inputs.
\<close>

definition main :: "string list \<Rightarrow> init_env \<Rightarrow> iter_env list \<Rightarrow> (nat \<times> event list) option" where
  "main argv ie envs =
    (case init (conf_path argv) ie of
       Inl e \<Rightarrow> Some (1, [])
     | Inr driver \<Rightarrow>
         (case run envs driver of
            None \<Rightarrow> None
          | Some d \<Rightarrow> Some (0, trace d)))"

section \<open>Reading the trace\<close>

text \<open>The calls of \<^verbatim>\<open>GPIO.output\<close>, \<^verbatim>\<open>GPIO.setup\<close> and \<^verbatim>\<open>GPIO.cleanup\<close> in a trace.\<close>

fun is_write :: "event \<Rightarrow> bool" where
  "is_write (GpioOutput p l) = True"
| "is_write _ = False"

fun is_setup :: "event \<Rightarrow> bool" where
  "is_setup (GpioSetup p l) = True"
| "is_setup _ = False"

definition writes :: "event list \<Rightarrow> event list" where
  "writes tr = filter is_write tr"

definition setups :: "event list \<Rightarrow> event list" where
  "setups tr = filter is_setup tr"

definition releases :: "event list \<Rightarrow> nat" where
  "releases tr = count_list tr GpioCleanup"

definition reads :: "event list \<Rightarrow> nat" where
  "reads tr = count_list tr ReadTemp"

text \<open>
  Each write with the index of the reading that caused it: readings are numbered from 0 in
  the order of the calls of \<^verbatim>\<open>_get_temp\<close>; \<open>n\<close> is the number of readings seen so far.
\<close>

fun writes_at :: "nat \<Rightarrow> event list \<Rightarrow> (nat \<times> bool) list" where
  "writes_at n [] = []"
| "writes_at n (ReadTemp # tr) = writes_at (Suc n) tr"
| "writes_at n (GpioOutput p l # tr) = (n - 1, l) # writes_at n tr"
| "writes_at n (ev # tr) = writes_at n tr"

text \<open>
  The daemon at the start of the pass that follows the passes \<open>es\<close>, when each of them
  is entered and ends without an exception.
\<close>

fun after :: "iter_env list \<Rightarrow> daemon \<Rightarrow> daemon option" where
  "after [] d = Some d"
| "after (e # es) d =
    (if running d then
       (case iteration e d of
          Some (None, d1) \<Rightarrow> after es d1
        | _ \<Rightarrow> None)
     else None)"

text \<open>A stop request (\<^verbatim>\<open>SIGTERM\<close> or \<^verbatim>\<open>SIGINT\<close>) is among the signals.\<close>

definition stops :: "signal list \<Rightarrow> bool" where
  "stops sigs = (SIGTERM \<in> set sigs \<or> SIGINT \<in> set sigs)"

text \<open>\<^verbatim>\<open>config[k]\<close> in the dictionary \<^verbatim>\<open>_load_config\<close> returns, if it returns.\<close>

definition loaded_field :: "conf_source \<Rightarrow> string \<Rightarrow> json option" where
  "loaded_field src k = (case load_config src of Inl e \<Rightarrow> None | Inr cfg \<Rightarrow> cfg k)"

text \<open>The state in which \<^verbatim>\<open>run\<close> enters its loop.\<close>

definition entering :: "daemon \<Rightarrow> daemon" where
  "entering d = (emit LogStarting d)\<lparr>running := True\<rparr>"

section \<open>Concrete inputs\<close>

text \<open>A start with an empty configuration document, and the daemon it constructs.\<close>

definition boot :: init_env where
  "boot = \<lparr>init_files = (\<lambda>p. Document Map.empty), logging_ok = True,
            init_setup_ok = True, sig_init = []\<rparr>"

definition fresh_daemon :: daemon where
  "fresh_daemon =
    \<lparr>config_file = ''/etc/fan_driver.config.json'',
     config = default_config(''log_format'' \<mapsto> JStr (join '' '' log_format)),
     pin_state = False, running = False, end_event = False, reload_event = False,
     trace = [LogLoaded, LogConfig, GpioSetmode, GpioSetup (JInt 21) False, LogInited]\<rparr>"

text \<open>
  A pass in which the sensor file holds \<open>v\<close>, the GPIO calls succeed, the signals \<open>sigs\<close>
  arrive while the loop is parked in the wait and the configuration file holds the document
  \<open>doc\<close>.
\<close>

definition pass :: "sensor_read \<Rightarrow> signal list \<Rightarrow> conf_source \<Rightarrow> iter_env" where
  "pass s sigs doc =
    \<lparr>sensor = s, output_ok = True, sig_work = [], sig_lock = [], sig_wait = sigs,
     files = (\<lambda>p. doc),
     setup_ok = True, sig_reload = [], sig_end = []\<rparr>"

text \<open>
  Scenario A of the specification: the readings 50, 56, 50, 44, 50 degrees (the sensor
  reports millidegrees), then a stop request while the loop is parked in the fifth wait.
\<close>

definition scenario_A :: "iter_env list" where
  "scenario_A =
    [pass (SensorValue 50000) [] Unloadable,
     pass (SensorValue 56000) [] Unloadable,
     pass (SensorValue 50000) [] Unloadable,
     pass (SensorValue 44000) [] Unloadable,
     pass (SensorValue 50000) [SIGTERM] Unloadable]"

text \<open>A configuration document whose thresholds are the wrong way round.\<close>

definition inverted :: conf where
  "inverted = [''temp_min'' \<mapsto> JInt 60, ''temp_max'' \<mapsto> JInt 50]"

text \<open>The daemon of the default configuration with the fan engaged.\<close>

definition engaged_daemon :: daemon where
  "engaged_daemon = fresh_daemon\<lparr>pin_state := True\<rparr>"

text \<open>A pass that reads 56 degrees and in which \<^verbatim>\<open>GPIO.output\<close> raises.\<close>

definition failing_write :: iter_env where
  "failing_write = (pass (SensorValue 56000) [] Unloadable)\<lparr>output_ok := False\<rparr>"


text \<open>The daemon of the default configuration inside its loop, with a reload request pending.\<close>

definition reload_pending :: daemon where
  "reload_pending = (entering fresh_daemon)\<lparr>reload_event := True\<rparr>"

text \<open>A start at which the configuration file cannot be loaded.\<close>

definition no_config :: init_env where
  "no_config = boot\<lparr>init_files := (\<lambda>p. Unloadable)\<rparr>"

section \<open>Basic facts\<close>

subsection \<open>Construction, signals and the loop\<close>

lemma init_fresh: "init (conf_path []) boot = Inr fresh_daemon"
  by (simp add: init_def conf_path_def boot_def load_config_def default_config_def
      setup_pins_def emit_def deliver_def fresh_daemon_def Let_def)

lemma stop_handler_fields [simp]:
  "config (signal_stop_handler d) = config d" "pin_state (signal_stop_handler d) = pin_state d"
  "trace (signal_stop_handler d) = trace d" "config_file (signal_stop_handler d) = config_file d"
  "running (signal_stop_handler d) = False" "end_event (signal_stop_handler d) = True"
  "reload_event (signal_stop_handler d) = reload_event d"
  by (simp_all add: signal_stop_handler_def)

lemma reload_handler_fields [simp]:
  "config (signal_reload_handler d) = config d" "pin_state (signal_reload_handler d) = pin_state d"
  "trace (signal_reload_handler d) = trace d" "config_file (signal_reload_handler d) = config_file d"
  "running (signal_reload_handler d) = running d" "end_event (signal_reload_handler d) = end_event d"
  "reload_event (signal_reload_handler d) = True"
  by (simp_all add: signal_reload_handler_def)

lemma deliver_Nil [simp]: "deliver [] d = d"
  by (simp add: deliver_def)

lemma deliver_Cons [simp]: "deliver (s # ss) d = deliver ss (handle s d)"
  by (simp add: deliver_def)

lemma deliver_frame [simp]:
  "config (deliver sigs d) = config d" "pin_state (deliver sigs d) = pin_state d"
  "trace (deliver sigs d) = trace d" "config_file (deliver sigs d) = config_file d"
proof (induction sigs arbitrary: d)
  case Nil
  { case 1 show ?case by simp next case 2 show ?case by simp
    next case 3 show ?case by simp next case 4 show ?case by simp }
next
  case (Cons s ss)
  { case 1 show ?case using Cons.IH(1) by (cases s) simp_all
    next case 2 show ?case using Cons.IH(2) by (cases s) simp_all
    next case 3 show ?case using Cons.IH(3) by (cases s) simp_all
    next case 4 show ?case using Cons.IH(4) by (cases s) simp_all }
qed

lemma stops_Nil [simp]: "\<not> stops []"
  by (simp add: stops_def)

lemma stops_Cons [simp]: "stops (s # ss) = (s \<noteq> SIGHUP \<or> stops ss)"
  by (cases s) (auto simp: stops_def)

lemma deliver_running: "running (deliver sigs d) = (running d \<and> \<not> stops sigs)"
proof (induction sigs arbitrary: d)
  case Nil show ?case by simp
next
  case (Cons s ss) then show ?case by (cases s) simp_all
qed








lemma after_run_loop:
  "after pre d = Some d1 \<Longrightarrow> run_loop (pre @ rest) d = run_loop rest d1"
proof (induction pre arbitrary: d)
  case Nil then show ?case by simp
next
  case (Cons e es)
  then show ?case by (simp split: if_splits option.splits prod.splits)
qed

lemma run_entering:
  "run envs d =
    (case run_loop envs (entering d) of
       None \<Rightarrow> None
     | Some (None, d3) \<Rightarrow> Some (emit LogShutdown (cleanup_pins d3))
     | Some (Some err, d3) \<Rightarrow> Some (emit LogShutdown (cleanup_pins (emit (LogError err) d3))))"
  by (simp add: run_def entering_def Let_def split: option.splits prod.splits)

lemma run_raises:
  assumes "after pre (entering d0) = Some d1" and "running d1"
    and "iteration e d1 = Some (Some err, d2)"
  shows "run (pre @ e # post) d0 = Some (emit LogShutdown (cleanup_pins (emit (LogError err) d2)))"
  using assms by (simp add: run_entering after_run_loop)

subsection \<open>The daemon built from an empty configuration document\<close>

lemma fresh_fields:
  "config fresh_daemon ''temp_min'' = Some (JInt 45)"
  "config fresh_daemon ''temp_max'' = Some (JInt 55)"
  "config fresh_daemon ''sleep'' = Some (JInt 1)"
  "config fresh_daemon ''control_pin'' = Some (JInt 21)"
  "pin_state fresh_daemon = False"
  by (simp_all add: fresh_daemon_def default_config_def)

subsection \<open>Loading and reloading\<close>

lemma default_fields:
  "default_config ''temp_max'' = Some (JInt 55)"
  "default_config ''temp_min'' = Some (JInt 45)"
  "default_config ''sleep'' = Some (JInt 1)"
  "default_config ''control_pin'' = Some (JInt 21)"
  "default_config ''log_level'' = Some (JStr ''INFO'')"
  "default_config ''log_file'' = Some JNull"
  "default_config ''log_format'' = Some JNull"
  by (simp_all add: default_config_def)

lemma load_config_Document:
  "load_config (Document data) =
     Inr ((default_config ++ data)(''log_format'' \<mapsto>
        (case data ''log_format'' of
           None \<Rightarrow> JStr (join '' '' log_format)
         | Some f \<Rightarrow> if truthy f then f else JStr (join '' '' log_format))))"
  by (auto simp: load_config_def Let_def map_add_def default_fields split: option.splits)

lemma load_config_pin:
  "load_config (Document data) = Inr cfg \<Longrightarrow> \<exists>pin. cfg ''control_pin'' = Some pin"
  by (auto simp: load_config_Document map_add_def default_fields split: option.splits)

lemma setup_pins_eq:
  "config d ''control_pin'' = Some pin \<Longrightarrow>
   setup_pins ok d =
     (if ok then None else Some PinSetupError,
      d\<lparr>trace := trace d @ [GpioSetmode, GpioSetup pin (pin_state d)]\<rparr>)"
  by (simp add: setup_pins_def emit_def Let_def)

lemma reload_config_eq:
  "load_config src = Inr cfg \<Longrightarrow> cfg ''control_pin'' = Some pin \<Longrightarrow>
   reload_config src ok d =
     (if ok then None else Some PinSetupError,
      d\<lparr>config := cfg,
        trace := trace d @ [LogReloaded, LogConfig, GpioCleanup, GpioSetmode,
                            GpioSetup pin (pin_state d)]\<rparr>)"
  by (simp add: reload_config_def setup_pins_def cleanup_pins_def emit_def Let_def)

lemma engaged_fields:
  "config engaged_daemon ''control_pin'' = Some (JInt 21)" "pin_state engaged_daemon"
  by (simp_all add: engaged_daemon_def fresh_daemon_def default_config_def)

subsection \<open>Failing passes\<close>

lemma work_sensor_fails:
  assumes "config d ''control_pin'' = Some pin"
  shows "work SensorMissing ok d = (Some SensorOpenError, d\<lparr>trace := trace d @ [ReadTemp]\<rparr>)"
    and "work SensorGarbage ok d = (Some SensorParseError, d\<lparr>trace := trace d @ [ReadTemp]\<rparr>)"
  using assms by (simp_all add: work_def get_temp_def emit_def)

lemma iteration_work_raises:
  "work (sensor e) (output_ok e) (deliver (sig_work e) d) = (Some err, d1) \<Longrightarrow>
   iteration e d = Some (Some err, d1)"
  by (simp add: iteration_def)

lemmas step_defs = work_def get_temp_def must_toggle_def temp_gt_def temp_lt_def emit_def
  event_wait_def PY_TIMEOUT_MAX_def catch_reload_def iteration_def pass_def entering_def
  cleanup_pins_def

lemma must_toggle_cong:
  "config d1 = config d \<Longrightarrow> pin_state d1 = pin_state d \<Longrightarrow> must_toggle t d1 = must_toggle t d"
  unfolding must_toggle_def by (simp cong: if_cong sum.case_cong)

lemma work_toggles:
  assumes "config d ''control_pin'' = Some pin" and "must_toggle (v / 1000) d = Inr True"
  shows "work (SensorValue v) ok d =
     (if ok then None else Some PinWriteError,
      d\<lparr>pin_state := \<not> pin_state d,
        trace := trace d @ [ReadTemp, LogTemp (v / 1000), GpioOutput pin (\<not> pin_state d)] @
                 (if ok then [LogChanged pin (\<not> pin_state d)] else [])\<rparr>)"
proof -
  let ?d2 = "emit (LogTemp (v / 1000)) (emit ReadTemp d)"
  have "must_toggle (v / 1000) ?d2 = must_toggle (v / 1000) d"
    by (rule must_toggle_cong) (simp_all add: emit_def)
  with assms(2) have "must_toggle (v / 1000) ?d2 = Inr True" by simp
  then show ?thesis using assms(1)
    by (simp add: work_def get_temp_def emit_def Let_def)
qed

lemma entering_fresh_toggle_56:
  "config (entering fresh_daemon) ''control_pin'' = Some (JInt 21)"
  "must_toggle (56000 / 1000) (entering fresh_daemon) = Inr True"
  by (simp_all add: must_toggle_def temp_gt_def temp_lt_def entering_def emit_def
      fresh_daemon_def default_config_def)

lemma catch_reload_Document:
  assumes "reload_event d" and "files e (config_file d) = Document data"
    and "load_config (Document data) = Inr cfg" and "cfg ''control_pin'' = Some pin"
  shows "catch_reload e d =
     (if setup_ok e then None else Some PinSetupError,
      if setup_ok e then
        (deliver (sig_reload e)
           (d\<lparr>config := cfg,
              trace := trace d @ [LogReloaded, LogConfig, GpioCleanup, GpioSetmode,
                                  GpioSetup pin (pin_state d)]\<rparr>))\<lparr>reload_event := False\<rparr>
      else d\<lparr>config := cfg,
             trace := trace d @ [LogReloaded, LogConfig, GpioCleanup, GpioSetmode,
                                 GpioSetup pin (pin_state d)]\<rparr>)"
  using assms by (simp add: catch_reload_def reload_config_eq [OF assms(3,4)] Let_def)


section \<open>The hysteresis step\<close>

text \<open>
  Claim C1. For every configuration whose thresholds are numbers with \<open>temp_min < temp_max\<close>
  and every outcome of the temperature reading, one call of \<^verbatim>\<open>work\<close> turns the fan state
  from disengaged to engaged only when the temperature read is above \<open>temp_max\<close>, from
  engaged to disengaged only when it is below \<open>temp_min\<close>, and for a temperature strictly
  between the two thresholds it leaves the state as it is and makes no call of
  \<^verbatim>\<open>GPIO.output\<close>, whichever the state. The temperature is the sensor value divided by 1000.
\<close>

theorem work_hysteresis:
  assumes "config d ''temp_min'' = Some jlo" and "num_of jlo = Some lo"
    and "config d ''temp_max'' = Some jhi" and "num_of jhi = Some hi"
    and "lo < hi"
    and "work s ok d = (r, d')"
  shows "(\<not> pin_state d \<and> pin_state d' \<longrightarrow> (\<exists>v. s = SensorValue v \<and> hi < v / 1000)) \<and>
         (pin_state d \<and> \<not> pin_state d' \<longrightarrow> (\<exists>v. s = SensorValue v \<and> v / 1000 < lo)) \<and>
         (\<forall>v. s = SensorValue v \<and> lo < v / 1000 \<and> v / 1000 < hi \<longrightarrow>
            pin_state d' = pin_state d \<and> writes (trace d') = writes (trace d))"
proof (cases "config d ''control_pin''")
  case None
  with assms(6) show ?thesis by (simp add: work_def)
next
  case (Some pin)
  show ?thesis
  proof (cases s)
    case SensorMissing
    with Some assms(6) show ?thesis by (auto simp: work_def get_temp_def emit_def)
  next
    case SensorGarbage
    with Some assms(6) show ?thesis by (auto simp: work_def get_temp_def emit_def)
  next
    case (SensorValue v)
    with Some assms show ?thesis
      by (auto simp: work_def get_temp_def must_toggle_def temp_gt_def temp_lt_def emit_def
          writes_def Let_def split: if_splits bool.splits)
  qed
qed

text \<open>
  The theorem at the daemon built from the default configuration (thresholds 45 and 55) and
  a sensor value of 50000, that is 50 degrees.
\<close>

theorem work_hysteresis_witness:
  "config fresh_daemon ''temp_min'' = Some (JInt 45) \<and> num_of (JInt 45) = Some 45 \<and>
   config fresh_daemon ''temp_max'' = Some (JInt 55) \<and> num_of (JInt 55) = Some 55 \<and>
   (45 :: real) < 55 \<and> (45 :: real) < 50000 / 1000 \<and> (50000 :: real) / 1000 < 55 \<and>
   pin_state (snd (work (SensorValue 50000) True fresh_daemon)) = pin_state fresh_daemon \<and>
   writes (trace (snd (work (SensorValue 50000) True fresh_daemon))) = writes (trace fresh_daemon)"
proof -
  have h1: "config fresh_daemon ''temp_min'' = Some (JInt 45)" by (rule fresh_fields)
  have h2: "num_of (JInt 45) = Some 45" by simp
  have h3: "config fresh_daemon ''temp_max'' = Some (JInt 55)" by (rule fresh_fields)
  have h4: "num_of (JInt 55) = Some 55" by simp
  have h5: "(45 :: real) < 55" by simp
  have h6: "work (SensorValue 50000) True fresh_daemon =
      (fst (work (SensorValue 50000) True fresh_daemon), snd (work (SensorValue 50000) True fresh_daemon))"
    by simp
  from work_hysteresis [OF h1 h2 h3 h4 h5 h6] h1 h3 show ?thesis by simp
qed


text \<open>
  Claim C5. With the thresholds 45 and 55 of the default configuration and the fan disengaged
  at the start, a run over the readings 50, 56, 50, 44, 50 calls \<^verbatim>\<open>GPIO.output\<close> exactly
  twice: at reading 1 with level \<^verbatim>\<open>True\<close> (engage) and at reading 3 with level
  \<^verbatim>\<open>False\<close> (disengage); the final state is disengaged.
\<close>

theorem scenario_A_writes:
  "config fresh_daemon ''temp_min'' = Some (JInt 45) \<and>
   config fresh_daemon ''temp_max'' = Some (JInt 55) \<and>
   \<not> pin_state fresh_daemon \<and>
   map sensor scenario_A =
     [SensorValue 50000, SensorValue 56000, SensorValue 50000, SensorValue 44000,
      SensorValue 50000] \<and>
   map_option (\<lambda>d. (writes_at 0 (trace d), writes (trace d), pin_state d))
     (run scenario_A fresh_daemon) =
   Some ([(1, True), (3, False)],
         [GpioOutput (JInt 21) True, GpioOutput (JInt 21) False], False)"
  by (simp add: scenario_A_def run_def step_defs writes_def fresh_daemon_def default_config_def
      signal_stop_handler_def Let_def)

section \<open>The temperature source\<close>

text \<open>
  Claim C10. \<^verbatim>\<open>_get_temp\<close> returns the number in the sensor file divided by 1000. A file
  holding 55000 gives 55, which is not above the default \<open>temp_max\<close> of 55 under the strict
  comparison of \<^verbatim>\<open>work\<close>: from the default configuration with the fan disengaged, the call
  neither changes the state nor writes the pin.
\<close>

theorem get_temp_millidegrees:
  "fst (get_temp (SensorValue v) d) = Inr (v / 1000) \<and>
   fst (get_temp (SensorValue 55000) d) = Inr 55 \<and>
   default_config ''temp_max'' = Some (JInt 55) \<and>
   temp_gt 55 default_config ''temp_max'' = Inr False \<and>
   work (SensorValue 55000) ok fresh_daemon =
     (None, fresh_daemon\<lparr>trace := trace fresh_daemon @ [ReadTemp, LogTemp 55]\<rparr>)"
  by (simp add: work_def get_temp_def must_toggle_def temp_gt_def temp_lt_def emit_def
      fresh_daemon_def default_config_def Let_def)

section \<open>Configuration\<close>

text \<open>
  Claim C9, as the code has it. \<^verbatim>\<open>_load_config\<close> merges the document over the defaults
  field by field: a field absent from the document has its default (\<open>temp_max\<close> 55,
  \<open>temp_min\<close> 45, \<open>sleep\<close> 1, \<open>control_pin\<close> 21, \<open>log_level\<close> INFO, \<open>log_file\<close>
  \<^verbatim>\<open>None\<close>), a field present in it has the document's value, with one exception:
  \<open>log_format\<close> is the built-in format line whenever the document gives none or gives one
  that is false in Python (\<^verbatim>\<open>null\<close>, the empty string, 0, an empty list).
\<close>

theorem load_config_merge:
  "\<exists>cfg. load_config (Document data) = Inr cfg \<and>
     (\<forall>k. k \<noteq> ''log_format'' \<longrightarrow>
        cfg k = (case data k of None \<Rightarrow> default_config k | Some v \<Rightarrow> Some v)) \<and>
     cfg ''log_format'' =
       Some (case data ''log_format'' of
               None \<Rightarrow> JStr (join '' '' log_format)
             | Some f \<Rightarrow> if truthy f then f else JStr (join '' '' log_format)) \<and>
     default_config ''temp_max'' = Some (JInt 55) \<and>
     default_config ''temp_min'' = Some (JInt 45) \<and>
     default_config ''sleep'' = Some (JInt 1) \<and>
     default_config ''control_pin'' = Some (JInt 21) \<and>
     default_config ''log_level'' = Some (JStr ''INFO'') \<and>
     default_config ''log_file'' = Some JNull"
  by (simp add: load_config_Document default_fields map_add_def)

text \<open>The theorem at a document that sets \<open>temp_max\<close> only.\<close>

theorem load_config_merge_witness:
  "''temp_min'' \<noteq> ''log_format'' \<and> ''temp_max'' \<noteq> ''log_format'' \<and>
   loaded_field (Document [''temp_max'' \<mapsto> JInt 60]) ''temp_min'' = Some (JInt 45) \<and>
   loaded_field (Document [''temp_max'' \<mapsto> JInt 60]) ''temp_max'' = Some (JInt 60)"
proof -
  obtain cfg where c: "load_config (Document [''temp_max'' \<mapsto> JInt 60]) = Inr cfg"
    and f: "\<forall>k. k \<noteq> ''log_format'' \<longrightarrow>
        cfg k = (case [''temp_max'' \<mapsto> JInt 60] k of
                   None \<Rightarrow> default_config k | Some v \<Rightarrow> Some v)"
    using load_config_merge [of "[''temp_max'' \<mapsto> JInt 60]"] by blast
  have "cfg ''temp_min'' = Some (JInt 45)" "cfg ''temp_max'' = Some (JInt 60)"
    using f by (simp_all add: default_fields)
  then show ?thesis by (simp add: loaded_field_def c)
qed

text \<open>
  The claim as the specification words it (every field present in the document overrides the
  default) fails at a document whose \<open>log_format\<close> is the empty string: the loaded
  configuration has the built-in format line.
\<close>

theorem load_config_log_format_counterexample:
  "loaded_field (Document [''log_format'' \<mapsto> JStr []]) ''log_format'' =
     Some (JStr ''[PID: %(process)d] %(asctime)s [%(levelname)s] %(module)s:%(funcName)s:%(lineno)d %(message)s'') \<and>
   loaded_field (Document [''log_format'' \<mapsto> JStr []]) ''log_format'' \<noteq> Some (JStr [])"
  by (simp add: loaded_field_def load_config_Document log_format_def)

text \<open>
  Claim C7. A reload whose document loads and whose \<open>control_pin\<close> differs from the current
  one calls \<^verbatim>\<open>GPIO.cleanup\<close> once (which releases the old pin) and \<^verbatim>\<open>GPIO.setup\<close> once,
  on the new pin, and the initial level of that set-up is the \<^verbatim>\<open>pin_state\<close> the daemon had
  before the reload, which the reload does not change.
\<close>

theorem reload_pin_roundtrip:
  assumes "config d ''control_pin'' = Some old"
    and "load_config (Document data) = Inr cfg"
    and "cfg ''control_pin'' = Some new"
    and "new \<noteq> old"
  shows "\<exists>d'. reload_config (Document data) True d = (None, d') \<and>
           config d' = cfg \<and> pin_state d' = pin_state d \<and>
           trace d' = trace d @ [LogReloaded, LogConfig, GpioCleanup, GpioSetmode,
                                 GpioSetup new (pin_state d)] \<and>
           releases (trace d') = releases (trace d) + 1 \<and>
           setups (trace d') = setups (trace d) @ [GpioSetup new (pin_state d)]"
  using assms(2,3) by (simp add: reload_config_eq releases_def setups_def)

text \<open>The theorem at an engaged fan and a document that moves the pin from 21 to 17.\<close>

theorem reload_pin_roundtrip_witness:
  "config engaged_daemon ''control_pin'' = Some (JInt 21) \<and>
   loaded_field (Document [''control_pin'' \<mapsto> JInt 17]) ''control_pin'' = Some (JInt 17) \<and>
   JInt 17 \<noteq> JInt 21 \<and> pin_state engaged_daemon \<and>
   fst (reload_config (Document [''control_pin'' \<mapsto> JInt 17]) True engaged_daemon) = None \<and>
   trace (snd (reload_config (Document [''control_pin'' \<mapsto> JInt 17]) True engaged_daemon)) =
     trace engaged_daemon @
       [LogReloaded, LogConfig, GpioCleanup, GpioSetmode, GpioSetup (JInt 17) True] \<and>
   pin_state (snd (reload_config (Document [''control_pin'' \<mapsto> JInt 17]) True engaged_daemon))"
proof -
  obtain cfg where c: "load_config (Document [''control_pin'' \<mapsto> JInt 17]) = Inr cfg"
    by (simp add: load_config_Document)
  then have p: "cfg ''control_pin'' = Some (JInt 17)"
    by (auto simp: load_config_Document)
  have n: "JInt 17 \<noteq> JInt 21" by simp
  from reload_pin_roundtrip [OF engaged_fields(1) c p n] engaged_fields c p
  show ?thesis by (auto simp: loaded_field_def)
qed

section \<open>Failures in the loop\<close>

text \<open>
  Claim C8. When the temperature read of a pass fails (the sensor file cannot be opened or
  does not parse), \<^verbatim>\<open>run\<close> returns, and from the failed read on the trace holds exactly:
  the error log, one \<^verbatim>\<open>GPIO.cleanup\<close>, the shutdown log. No temperature is read again,
  whatever inputs \<open>post\<close> the following passes would have had. The pass is any pass of the
  run: \<open>pre\<close> are the inputs of the passes before it, \<open>d\<close> the daemon it starts from.
\<close>

theorem sensor_failure_stops:
  assumes "after pre (entering d0) = Some d"
    and "running d"
    and "config d ''control_pin'' = Some pin"
    and "sensor e = SensorMissing \<or> sensor e = SensorGarbage"
  shows "\<exists>d'. run (pre @ e # post) d0 = Some d' \<and>
           trace d' = trace d @
             [ReadTemp,
              LogError (if sensor e = SensorMissing then SensorOpenError else SensorParseError),
              GpioCleanup, LogShutdown] \<and>
           reads (trace d') = reads (trace d) + 1 \<and>
           releases (trace d') = releases (trace d) + 1"
proof -
  let ?err = "if sensor e = SensorMissing then SensorOpenError else SensorParseError"
  let ?d1 = "deliver (sig_work e) d"
  have "config ?d1 ''control_pin'' = Some pin" using assms(3) by simp
  then have "work (sensor e) (output_ok e) ?d1 = (Some ?err, ?d1\<lparr>trace := trace ?d1 @ [ReadTemp]\<rparr>)"
    using assms(4) work_sensor_fails by auto
  then have "iteration e d = Some (Some ?err, ?d1\<lparr>trace := trace ?d1 @ [ReadTemp]\<rparr>)"
    by (rule iteration_work_raises)
  then have "run (pre @ e # post) d0 =
      Some (emit LogShutdown (cleanup_pins (emit (LogError ?err)
        (?d1\<lparr>trace := trace ?d1 @ [ReadTemp]\<rparr>))))"
    by (rule run_raises [OF assms(1,2)])
  then show ?thesis by (simp add: emit_def cleanup_pins_def reads_def releases_def)
qed


text \<open>
  The theorem at a run whose first pass reads 50 degrees and whose second pass finds no
  sensor file; the third pass, which would read 60 degrees, never happens.
\<close>

theorem sensor_failure_stops_witness:
  "after [pass (SensorValue 50000) [] Unloadable] (entering fresh_daemon) =
     Some ((entering fresh_daemon)\<lparr>trace := trace (entering fresh_daemon) @ [ReadTemp, LogTemp 50]\<rparr>) \<and>
   running ((entering fresh_daemon)\<lparr>trace := trace (entering fresh_daemon) @ [ReadTemp, LogTemp 50]\<rparr>) \<and>
   sensor (pass SensorMissing [] Unloadable) = SensorMissing \<and>
   map_option trace
     (run ([pass (SensorValue 50000) [] Unloadable] @ pass SensorMissing [] Unloadable #
           [pass (SensorValue 60000) [] Unloadable]) fresh_daemon) =
   Some (trace fresh_daemon @
     [LogStarting, ReadTemp, LogTemp 50, ReadTemp, LogError SensorOpenError, GpioCleanup,
      LogShutdown])"
proof -
  let ?d = "(entering fresh_daemon)\<lparr>trace := trace (entering fresh_daemon) @ [ReadTemp, LogTemp 50]\<rparr>"
  have a: "after [pass (SensorValue 50000) [] Unloadable] (entering fresh_daemon) = Some ?d"
    by (simp add: step_defs fresh_daemon_def default_config_def Let_def)
  have r: "running ?d" by (simp add: entering_def)
  have c: "config ?d ''control_pin'' = Some (JInt 21)"
    by (simp add: entering_def emit_def fresh_fields)
  have s: "sensor (pass SensorMissing [] Unloadable) = SensorMissing \<or>
           sensor (pass SensorMissing [] Unloadable) = SensorGarbage"
    by (simp add: pass_def)
  from sensor_failure_stops [OF a r c s, of "[pass (SensorValue 60000) [] Unloadable]"] a r
  show ?thesis by (auto simp: pass_def entering_def emit_def)
qed

text \<open>
  Claim C3, as the code has it. When the hysteresis decision differs from the current state,
  \<^verbatim>\<open>work\<close> first stores the new \<^verbatim>\<open>pin_state\<close> and then calls \<^verbatim>\<open>GPIO.output\<close> with it. If
  the write fails, the stored state keeps the new value; the error leaves the loop, is logged
  by \<^verbatim>\<open>run\<close>, the pins are released and the shutdown is logged.
\<close>

theorem toggle_before_write:
  assumes "config d ''control_pin'' = Some pin"
    and "must_toggle (v / 1000) d = Inr True"
  shows "(\<exists>d'. work (SensorValue v) ok d = (if ok then None else Some PinWriteError, d') \<and>
            pin_state d' = (\<not> pin_state d) \<and>
            writes (trace d') = writes (trace d) @ [GpioOutput pin (\<not> pin_state d)]) \<and>
         (after pre (entering d0) = Some d \<and> running d \<and> sensor e = SensorValue v \<and>
          \<not> output_ok e \<longrightarrow>
            (\<exists>d'. run (pre @ e # post) d0 = Some d' \<and>
               pin_state d' = (\<not> pin_state d) \<and>
               trace d' = trace d @
                 [ReadTemp, LogTemp (v / 1000), GpioOutput pin (\<not> pin_state d),
                  LogError PinWriteError, GpioCleanup, LogShutdown]))"
proof (intro conjI impI)
  show "\<exists>d'. work (SensorValue v) ok d = (if ok then None else Some PinWriteError, d') \<and>
            pin_state d' = (\<not> pin_state d) \<and>
            writes (trace d') = writes (trace d) @ [GpioOutput pin (\<not> pin_state d)]"
    by (simp add: work_toggles [OF assms] writes_def)
next
  assume h: "after pre (entering d0) = Some d \<and> running d \<and> sensor e = SensorValue v \<and>
          \<not> output_ok e"
  let ?d1 = "deliver (sig_work e) d"
  let ?d2 = "?d1\<lparr>pin_state := \<not> pin_state ?d1,
        trace := trace ?d1 @ [ReadTemp, LogTemp (v / 1000), GpioOutput pin (\<not> pin_state ?d1)] @
                 (if output_ok e then [LogChanged pin (\<not> pin_state ?d1)] else [])\<rparr>"
  have c: "config ?d1 ''control_pin'' = Some pin" using assms(1) by simp
  have "must_toggle (v / 1000) ?d1 = must_toggle (v / 1000) d"
    by (rule must_toggle_cong) simp_all
  with assms(2) have m: "must_toggle (v / 1000) ?d1 = Inr True" by simp
  have "work (sensor e) (output_ok e) ?d1 = (Some PinWriteError, ?d2)"
    using work_toggles [OF c m, of "output_ok e"] h by simp
  then have "iteration e d = Some (Some PinWriteError, ?d2)"
    by (rule iteration_work_raises)
  then have "run (pre @ e # post) d0 =
      Some (emit LogShutdown (cleanup_pins (emit (LogError PinWriteError) ?d2)))"
    using h by (intro run_raises) simp_all
  then show "\<exists>d'. run (pre @ e # post) d0 = Some d' \<and>
               pin_state d' = (\<not> pin_state d) \<and>
               trace d' = trace d @
                 [ReadTemp, LogTemp (v / 1000), GpioOutput pin (\<not> pin_state d),
                  LogError PinWriteError, GpioCleanup, LogShutdown]"
    using h by (simp add: emit_def cleanup_pins_def)
qed

text \<open>
  The theorem at the daemon of the default configuration, disengaged, in a run whose first
  pass reads 56 degrees and fails to write the pin.
\<close>

theorem toggle_before_write_witness:
  "config (entering fresh_daemon) ''control_pin'' = Some (JInt 21) \<and>
   must_toggle (56000 / 1000) (entering fresh_daemon) = Inr True \<and>
   after [] (entering fresh_daemon) = Some (entering fresh_daemon) \<and>
   running (entering fresh_daemon) \<and> \<not> pin_state (entering fresh_daemon) \<and>
   sensor failing_write = SensorValue 56000 \<and> \<not> output_ok failing_write \<and>
   fst (work (SensorValue 56000) False (entering fresh_daemon)) = Some PinWriteError \<and>
   pin_state (snd (work (SensorValue 56000) False (entering fresh_daemon))) \<and>
   map_option (\<lambda>d. (pin_state d, trace d)) (run ([] @ failing_write # []) fresh_daemon) =
     Some (True, trace fresh_daemon @
       [LogStarting, ReadTemp, LogTemp 56, GpioOutput (JInt 21) True,
        LogError PinWriteError, GpioCleanup, LogShutdown])"
proof -
  let ?d = "entering fresh_daemon"
  have h: "after [] ?d = Some ?d \<and> running ?d \<and> sensor failing_write = SensorValue 56000 \<and>
           \<not> output_ok failing_write"
    by (simp add: entering_def failing_write_def pass_def)
  have n: "\<not> pin_state ?d" by (simp add: entering_def emit_def fresh_fields)
  note t = toggle_before_write [where ok = False and pre = "[]" and ?d0.0 = fresh_daemon
      and e = failing_write and post = "[]", OF entering_fresh_toggle_56]
  from t h n entering_fresh_toggle_56 show ?thesis
    by (auto simp: entering_def emit_def)
qed

text \<open>
  The claim as the specification words it (the stored state is updated only after a
  successful write, and is unchanged when the write fails) is false: from the disengaged
  state, a reading of 56 degrees whose write fails leaves \<^verbatim>\<open>pin_state\<close> engaged.
\<close>

theorem write_failure_counterexample:
  "\<not> pin_state fresh_daemon \<and>
   fst (work (SensorValue 56000) False fresh_daemon) = Some PinWriteError \<and>
   pin_state (snd (work (SensorValue 56000) False fresh_daemon))"
  by (simp add: step_defs fresh_daemon_def default_config_def Let_def)


section \<open>Reload\<close>

text \<open>
  Claim C2, as the code has it. A reload request is processed without any validation of the
  proposed configuration: whenever the file loads (also with \<open>temp_min \<ge> temp_max\<close> or a
  poll interval that is not positive) and the pin set-up succeeds, the new configuration
  replaces the previous one, field by field as \<^verbatim>\<open>_load_config\<close> merges it, nothing is logged
  as an error, the pins are released and set up again with the unchanged \<^verbatim>\<open>pin_state\<close>, the
  loop keeps running (unless a stop request arrives meanwhile) and the reload flag is
  cleared.
\<close>

theorem reload_installs_unvalidated:
  assumes "reload_event d"
    and "files e (config_file d) = Document data"
    and "setup_ok e"
  shows "\<exists>d' cfg pin. catch_reload e d = (None, d') \<and>
           load_config (Document data) = Inr cfg \<and> config d' = cfg \<and>
           (\<forall>k. k \<noteq> ''log_format'' \<longrightarrow>
              config d' k = (case data k of None \<Rightarrow> default_config k | Some v \<Rightarrow> Some v)) \<and>
           \<not> reload_event d' \<and>
           running d' = (running d \<and> \<not> stops (sig_reload e)) \<and>
           pin_state d' = pin_state d \<and>
           trace d' = trace d @ [LogReloaded, LogConfig, GpioCleanup, GpioSetmode,
                                 GpioSetup pin (pin_state d)]"
proof -
  obtain cfg where c: "load_config (Document data) = Inr cfg"
    by (simp add: load_config_Document)
  obtain pin where p: "cfg ''control_pin'' = Some pin"
    using load_config_pin [OF c] by blast
  have k: "\<forall>k. k \<noteq> ''log_format'' \<longrightarrow>
      cfg k = (case data k of None \<Rightarrow> default_config k | Some v \<Rightarrow> Some v)"
    using c by (auto simp: load_config_Document map_add_def)
  show ?thesis
    using catch_reload_Document [OF assms(1,2) c p] assms(3) c k
    by (simp add: deliver_running)
qed

text \<open>The theorem at a pending reload whose document has \<open>temp_min\<close> 60 and \<open>temp_max\<close> 50.\<close>

theorem reload_installs_unvalidated_witness:
  "reload_event reload_pending \<and>
   files (pass (SensorValue 50000) [] (Document inverted)) (config_file reload_pending) =
     Document inverted \<and>
   setup_ok (pass (SensorValue 50000) [] (Document inverted)) \<and>
   fst (catch_reload (pass (SensorValue 50000) [] (Document inverted)) reload_pending) = None \<and>
   \<not> reload_event
       (snd (catch_reload (pass (SensorValue 50000) [] (Document inverted)) reload_pending)) \<and>
   running (snd (catch_reload (pass (SensorValue 50000) [] (Document inverted)) reload_pending)) \<and>
   config (snd (catch_reload (pass (SensorValue 50000) [] (Document inverted)) reload_pending))
     ''sleep'' = Some (JInt 1)"
proof -
  let ?e = "pass (SensorValue 50000) [] (Document inverted)"
  have h1: "reload_event reload_pending" by (simp add: reload_pending_def)
  have h2: "files ?e (config_file reload_pending) = Document inverted" by (simp add: pass_def)
  have h3: "setup_ok ?e" by (simp add: pass_def)
  have s: "\<not> stops (sig_reload ?e)" "running reload_pending"
    by (simp_all add: pass_def reload_pending_def entering_def)
  have i: "inverted ''sleep'' = None" by (simp add: inverted_def)
  obtain d' where r: "catch_reload ?e reload_pending = (None, d')"
    and f: "\<forall>k. k \<noteq> ''log_format'' \<longrightarrow>
              config d' k = (case inverted k of None \<Rightarrow> default_config k | Some v \<Rightarrow> Some v)"
    and n: "\<not> reload_event d'"
    and g: "running d' = (running reload_pending \<and> \<not> stops (sig_reload ?e))"
    using reload_installs_unvalidated [OF h1 h2 h3] by blast
  have "config d' ''sleep'' = Some (JInt 1)" using f i by (simp add: default_fields)
  with r n g s h1 h2 h3 show ?thesis by simp
qed

text \<open>
  The claim as the specification words it (an invalid configuration is rejected and the
  previous one kept) is false: after the reload of that document the thresholds in force are
  60 and 50, and the trace holds no error.
\<close>

theorem reload_invalid_counterexample:
  "config reload_pending ''temp_min'' = Some (JInt 45) \<and>
   config reload_pending ''temp_max'' = Some (JInt 55) \<and>
   inverted ''temp_min'' = Some (JInt 60) \<and> inverted ''temp_max'' = Some (JInt 50) \<and>
   catch_reload (pass (SensorValue 50000) [] (Document inverted)) reload_pending =
     (None,
      reload_pending
        \<lparr>config := (config reload_pending)
            (''temp_min'' \<mapsto> JInt 60, ''temp_max'' \<mapsto> JInt 50),
         reload_event := False,
         trace := trace reload_pending @
           [LogReloaded, LogConfig, GpioCleanup, GpioSetmode, GpioSetup (JInt 21) False]\<rparr>) \<and>
   config (snd (catch_reload (pass (SensorValue 50000) [] (Document inverted)) reload_pending))
     ''temp_min'' = Some (JInt 60) \<and>
   config (snd (catch_reload (pass (SensorValue 50000) [] (Document inverted)) reload_pending))
     ''temp_max'' = Some (JInt 50)"
  by (auto simp: catch_reload_def reload_config_def load_config_def setup_pins_def
      cleanup_pins_def emit_def pass_def reload_pending_def entering_def fresh_daemon_def
      default_config_def inverted_def log_format_def Let_def map_add_def fun_eq_iff)

section \<open>The wait and the signals\<close>




section \<open>Exit status\<close>

text \<open>
  Claim C6, as the code has it. The exit status does not tell a failure in the loop from a
  clean stop: once \<^verbatim>\<open>__init__\<close> has returned, whatever ends the loop (a stop request, or an
  exception, which \<^verbatim>\<open>run\<close> catches and logs) the script runs to its end and the status is
  0. The status is 1 only when \<^verbatim>\<open>__init__\<close> itself raises.
\<close>

theorem exit_status:
  "(init (conf_path argv) ie = Inl err \<longrightarrow> main argv ie envs = Some (1, [])) \<and>
   (init (conf_path argv) ie = Inr d \<and> run_loop envs (entering d) = Some (r, d') \<longrightarrow>
      main argv ie envs =
        Some (0, trace d' @ (case r of None \<Rightarrow> [] | Some e \<Rightarrow> [LogError e]) @
                 [GpioCleanup, LogShutdown]))"
  by (auto simp: main_def run_entering emit_def cleanup_pins_def split: option.splits)

text \<open>
  The theorem at a start whose configuration file cannot be loaded, and at a start that is
  stopped by \<^verbatim>\<open>SIGTERM\<close> during the first wait.
\<close>

theorem exit_status_witness:
  "init (conf_path []) no_config = Inl ConfigLoadError \<and>
   main [] no_config [] = Some (1, []) \<and>
   init (conf_path []) boot = Inr fresh_daemon \<and>
   run_loop [pass (SensorValue 50000) [SIGTERM] Unloadable] (entering fresh_daemon) =
     Some (None, (entering fresh_daemon)
       \<lparr>running := False, end_event := True,
        trace := trace (entering fresh_daemon) @ [ReadTemp, LogTemp 50]\<rparr>) \<and>
   main [] boot [pass (SensorValue 50000) [SIGTERM] Unloadable] =
     Some (0, trace fresh_daemon @
       [LogStarting, ReadTemp, LogTemp 50, GpioCleanup, LogShutdown])"
proof -
  let ?envs = "[pass (SensorValue 50000) [SIGTERM] Unloadable]"
  let ?d' = "(entering fresh_daemon)
       \<lparr>running := False, end_event := True,
        trace := trace (entering fresh_daemon) @ [ReadTemp, LogTemp 50]\<rparr>"
  have a: "init (conf_path []) no_config = Inl ConfigLoadError"
    by (simp add: init_def no_config_def boot_def load_config_def)
  have b: "run_loop ?envs (entering fresh_daemon) = Some (None, ?d')"
    by (simp add: step_defs fresh_daemon_def default_config_def signal_stop_handler_def Let_def)
  have "main [] no_config [] = Some (1, [])"
    using exit_status [of "[]" no_config ConfigLoadError "[]"] a by blast
  moreover have "main [] boot ?envs =
      Some (0, trace ?d' @ (case None of None \<Rightarrow> [] | Some e \<Rightarrow> [LogError e]) @
               [GpioCleanup, LogShutdown])"
    using exit_status [of "[]" boot _ ?envs fresh_daemon None ?d'] init_fresh b by blast
  ultimately show ?thesis using a b init_fresh
    by (simp add: entering_def emit_def)
qed

text \<open>
  The claim as the specification words it (a non-zero status when the loop ends by a
  failure) is false: with the sensor file missing at the first reading the error is logged
  and the status is 0.
\<close>

theorem exit_status_counterexample:
  "main [] boot [pass SensorMissing [] Unloadable] =
     Some (0, [LogLoaded, LogConfig, GpioSetmode, GpioSetup (JInt 21) False, LogInited,
               LogStarting, ReadTemp, LogError SensorOpenError, GpioCleanup, LogShutdown])"
  by (simp add: main_def init_fresh run_def step_defs fresh_daemon_def default_config_def
      Let_def)

end
